theory Spec2Isabelle
  imports Complex_Main
begin

section \<open>Vehicle manager: data model\<close>

text \<open>
  The module \<^verbatim>\<open>vehicle_manager.py\<close> is a client of a remote HTTP inventory. Python
  floats are modelled as real numbers (exact arithmetic, no rounding, no NaN and no
  infinity apart from the initial bound of the nearest-vehicle search), Python integers
  as \<open>int\<close>, exceptions as values of a sum type.
\<close>

datatype error =
    ValueError    \<comment> \<open>math domain error, \<^verbatim>\<open>max()\<close> of an empty sequence\<close>
  | TypeError     \<comment> \<open>\<^verbatim>\<open>Vehicle(**data)\<close> with unexpected or missing arguments\<close>
  | RequestError  \<comment> \<open>any failure raised by the HTTP layer\<close>
  | JSONDecodeError

text \<open>\<^verbatim>\<open>R_M = 6371000\<close>, the radius of earth in metres.\<close>

definition R_M :: real where
  "R_M = 6371000"

text \<open>
  The dataclass \<^verbatim>\<open>Vehicle\<close>. The field \<^verbatim>\<open>id\<close> is \<^verbatim>\<open>int | None\<close> with default
  \<^verbatim>\<open>None\<close>; it is named \<open>id'\<close> here because \<open>id\<close> is the identity function of HOL.
  The annotations of the dataclass are taken as the types of the fields.
\<close>

record Vehicle =
  name :: string
  model :: string
  year :: int
  color :: string
  price :: real
  latitude :: real
  longitude :: real
  id' :: "int option"

record Coordinates =
  latitude :: real
  longitude :: real

text \<open>
  The scalar values of a decoded JSON document, and Python's \<^verbatim>\<open>==\<close> on them: an
  \<^verbatim>\<open>int\<close> and a \<^verbatim>\<open>float\<close> are equal when they denote the same number, values of
  different kinds are unequal.
\<close>

datatype py_value = PNone | PInt int | PFloat real | PStr string

fun py_eq :: "py_value \<Rightarrow> py_value \<Rightarrow> bool" where
  "py_eq PNone PNone = True"
| "py_eq (PInt a) (PInt b) = (a = b)"
| "py_eq (PInt a) (PFloat b) = (real_of_int a = b)"
| "py_eq (PFloat a) (PInt b) = (a = real_of_int b)"
| "py_eq (PFloat a) (PFloat b) = (a = b)"
| "py_eq (PStr a) (PStr b) = (a = b)"
| "py_eq _ _ = False"

text \<open>
  A JSON object decoded to a Python \<^verbatim>\<open>dict\<close>: an association list in insertion order,
  read with \<open>map_of\<close>. \<^verbatim>\<open>key in d\<close> and \<^verbatim>\<open>d[key]\<close> (the latter is called only
  after the former holds).
\<close>

type_synonym json_object = "(string \<times> py_value) list"

definition contains :: "json_object \<Rightarrow> string \<Rightarrow> bool" where
  "contains d key = (map_of d key \<noteq> None)"

definition getitem :: "json_object \<Rightarrow> string \<Rightarrow> error + py_value" where
  "getitem d key = (case map_of d key of None \<Rightarrow> Inl TypeError | Some v \<Rightarrow> Inr v)"

subsection \<open>Constructing a record from a decoded object\<close>

definition bind_e :: "error + 'a \<Rightarrow> ('a \<Rightarrow> error + 'b) \<Rightarrow> error + 'b" where
  "bind_e r f = (case r of Inl e \<Rightarrow> Inl e | Inr x \<Rightarrow> f x)"

definition field_names :: "string list" where
  "field_names = [''name'', ''model'', ''year'', ''color'', ''price'', ''latitude'',
     ''longitude'', ''id'']"

fun as_str :: "py_value \<Rightarrow> error + string" where
  "as_str (PStr s) = Inr s"
| "as_str _ = Inl TypeError"

fun as_int :: "py_value \<Rightarrow> error + int" where
  "as_int (PInt n) = Inr n"
| "as_int _ = Inl TypeError"

fun as_float :: "py_value \<Rightarrow> error + real" where
  "as_float (PFloat x) = Inr x"
| "as_float (PInt n) = Inr (real_of_int n)"
| "as_float _ = Inl TypeError"

fun as_id :: "py_value \<Rightarrow> error + int option" where
  "as_id PNone = Inr None"
| "as_id (PInt n) = Inr (Some n)"
| "as_id _ = Inl TypeError"

text \<open>A required keyword argument: its absence is a TypeError of the constructor.\<close>

definition required :: "json_object \<Rightarrow> string \<Rightarrow> (py_value \<Rightarrow> error + 'a) \<Rightarrow> error + 'a" where
  "required d key conv = (case map_of d key of None \<Rightarrow> Inl TypeError | Some v \<Rightarrow> conv v)"

text \<open>
  \<^verbatim>\<open>Vehicle(**vehicle_data)\<close>: a key that is no field of the dataclass is an unexpected
  keyword argument, a missing field other than \<^verbatim>\<open>id\<close> is a missing argument, and
  \<^verbatim>\<open>id\<close> defaults to \<^verbatim>\<open>None\<close>. Python does not check the annotations; a value
  that does not have the annotated type cannot be stored in the typed record, and the
  model reports it as a TypeError as well.
\<close>

definition Vehicle_init :: "json_object \<Rightarrow> error + Vehicle" where
  "Vehicle_init d =
     (if \<not> list_all (\<lambda>key. key \<in> set field_names) (map fst d) then Inl TypeError
      else
        bind_e (required d ''name'' as_str) (\<lambda>n.
        bind_e (required d ''model'' as_str) (\<lambda>m.
        bind_e (required d ''year'' as_int) (\<lambda>y.
        bind_e (required d ''color'' as_str) (\<lambda>c.
        bind_e (required d ''price'' as_float) (\<lambda>p.
        bind_e (required d ''latitude'' as_float) (\<lambda>la.
        bind_e (required d ''longitude'' as_float) (\<lambda>lo.
        bind_e (case map_of d ''id'' of None \<Rightarrow> Inr None | Some v \<Rightarrow> as_id v) (\<lambda>i.
        Inr \<lparr>name = n, model = m, year = y, color = c, price = p,
             Vehicle.latitude = la, Vehicle.longitude = lo, id' = i\<rparr>)))))))))"

section \<open>The distance computation\<close>

text \<open>
  The functions of Python's \<^verbatim>\<open>math\<close> module that \<^verbatim>\<open>_get_distance\<close> calls.
  \<^verbatim>\<open>math.sqrt\<close> raises ValueError on a negative argument and \<^verbatim>\<open>math.asin\<close> raises
  it outside \<open>[-1, 1]\<close>.
\<close>

definition radians :: "real \<Rightarrow> real" where
  "radians x = x * (pi / 180)"

definition py_sqrt :: "real \<Rightarrow> error + real" where
  "py_sqrt x = (if x < 0 then Inl ValueError else Inr (sqrt x))"

definition py_asin :: "real \<Rightarrow> error + real" where
  "py_asin x = (if x < -1 \<or> 1 < x then Inl ValueError else Inr (arcsin x))"

text \<open>
  The value \<^verbatim>\<open>P\<close> of \<^verbatim>\<open>_get_distance\<close> (lines 182 to 190), with the source's
  evaluation order.
\<close>

definition haversine_P :: "Coordinates \<Rightarrow> Coordinates \<Rightarrow> real" where
  "haversine_P coord1 coord2 =
     (let lo1 = radians (longitude coord1);
          lo2 = radians (longitude coord2);
          la1 = radians (latitude coord1);
          la2 = radians (latitude coord2);
          d_lo = lo2 - lo1;
          d_la = la2 - la1
      in (sin (d_la / 2))\<^sup>2 + cos la1 * cos la2 * (sin (d_lo / 2))\<^sup>2)"

text \<open>
  \<^verbatim>\<open>_get_distance\<close>: \<^verbatim>\<open>Q = 2 * asin(sqrt(P))\<close>, then \<^verbatim>\<open>Q * R_M\<close>. The source has no
  clamp of \<^verbatim>\<open>P\<close>: both domain errors are branches of the model.
\<close>

definition get_distance' :: "Coordinates \<Rightarrow> Coordinates \<Rightarrow> error + real" where
  "get_distance' coord1 coord2 =
     (let P = haversine_P coord1 coord2
      in case py_sqrt P of
           Inl e \<Rightarrow> Inl e
         | Inr r \<Rightarrow>
             (case py_asin r of
                Inl e \<Rightarrow> Inl e
              | Inr a \<Rightarrow> let Q = 2 * a in Inr (Q * R_M)))"

section \<open>The remote inventory and the effects of the client\<close>

text \<open>
  The remote API is an external collaborator: the model takes its answers as a parameter,
  one per endpoint. A call of \<^verbatim>\<open>requests\<close> either raises or returns a response, whose
  \<^verbatim>\<open>.json()\<close> either raises or returns the decoded body: a list of objects for the
  collection, one object for a single resource. The base URL is fixed for a manager, so
  a request is identified by its method, its path and its payload.
\<close>

record 'a response =
  text' :: string
  json :: "error + 'a"

record remote =
  on_GET_vehicles :: "error + json_object list response"
  on_GET_vehicle :: "int \<Rightarrow> error + json_object response"
  on_POST_vehicles :: "Vehicle \<Rightarrow> error + json_object response"
  on_PUT_vehicle :: "int option \<Rightarrow> Vehicle \<Rightarrow> error + json_object response"
  on_DELETE_vehicle :: "int \<Rightarrow> error + unit"

datatype request =
    GET_vehicles
  | GET_vehicle int
  | POST_vehicles Vehicle
  | PUT_vehicle "int option" Vehicle
  | DELETE_vehicle int

text \<open>
  What a call changes besides its result: the requests sent so far, the lines printed,
  and the \<^verbatim>\<open>Vehicle\<close> objects of the caller, held in a store and passed by address.
\<close>

type_synonym addr = nat

record world =
  sent :: "request list"
  stdout :: "string list"
  objs :: "addr \<Rightarrow> Vehicle"

definition send :: "request \<Rightarrow> world \<Rightarrow> world" where
  "send r w = w\<lparr>sent := sent w @ [r]\<rparr>"

definition py_print :: "string \<Rightarrow> world \<Rightarrow> world" where
  "py_print line w = w\<lparr>stdout := stdout w @ [line]\<rparr>"

text \<open>
  \<^verbatim>\<open>vars(vehicle)\<close> is the attribute dictionary of the object itself, not a copy: it
  is the same address of the store. \<^verbatim>\<open>data['id'] = v\<close> therefore writes the field of
  the object.
\<close>

definition vars :: "addr \<Rightarrow> addr" where
  "vars obj = obj"

definition setitem_id :: "addr \<Rightarrow> int option \<Rightarrow> world \<Rightarrow> world" where
  "setitem_id data v w = w\<lparr>objs := (objs w)(data := (objs w data)\<lparr>id' := v\<rparr>)\<rparr>"

section \<open>The operations of \<^verbatim>\<open>VehicleManager\<close>\<close>

text \<open>The loop of \<^verbatim>\<open>get_vehicles\<close>, appending to \<^verbatim>\<open>vehicles\<close>.\<close>

fun get_vehicles_loop :: "json_object list \<Rightarrow> Vehicle list \<Rightarrow> error + Vehicle list" where
  "get_vehicles_loop [] vehicles = Inr vehicles"
| "get_vehicles_loop (vehicle_data # rest) vehicles =
     (case Vehicle_init vehicle_data of
        Inl e \<Rightarrow> Inl e
      | Inr v \<Rightarrow> get_vehicles_loop rest (vehicles @ [v]))"

definition get_vehicles :: "remote \<Rightarrow> world \<Rightarrow> (error + Vehicle list) \<times> world" where
  "get_vehicles api w =
     (let w1 = send GET_vehicles w
      in case on_GET_vehicles api of
           Inl e \<Rightarrow> (Inl e, w1)
         | Inr response \<Rightarrow>
             (case json response of
                Inl e \<Rightarrow> (Inl e, w1)
              | Inr vehicles_data \<Rightarrow> (get_vehicles_loop vehicles_data [], w1)))"

text \<open>
  \<^verbatim>\<open>filter_vehicles\<close>: for every fetched object, every item of \<^verbatim>\<open>params\<close> in
  the order of the dictionary; each item that the object matches appends one record.
\<close>

definition matches :: "json_object \<Rightarrow> string \<times> py_value \<Rightarrow> bool" where
  "matches vehicle_data item =
     (case item of (key, value) \<Rightarrow>
        contains vehicle_data key \<and>
        (case getitem vehicle_data key of Inl e \<Rightarrow> False | Inr v \<Rightarrow> py_eq v value))"

fun filter_items ::
  "json_object \<Rightarrow> (string \<times> py_value) list \<Rightarrow> Vehicle list \<Rightarrow> error + Vehicle list" where
  "filter_items vehicle_data [] vehicles = Inr vehicles"
| "filter_items vehicle_data (item # items) vehicles =
     (if matches vehicle_data item
      then (case Vehicle_init vehicle_data of
              Inl e \<Rightarrow> Inl e
            | Inr v \<Rightarrow> filter_items vehicle_data items (vehicles @ [v]))
      else filter_items vehicle_data items vehicles)"

fun filter_loop ::
  "json_object list \<Rightarrow> (string \<times> py_value) list \<Rightarrow> Vehicle list \<Rightarrow> error + Vehicle list" where
  "filter_loop [] params vehicles = Inr vehicles"
| "filter_loop (vehicle_data # rest) params vehicles =
     (case filter_items vehicle_data params vehicles of
        Inl e \<Rightarrow> Inl e
      | Inr vehicles' \<Rightarrow> filter_loop rest params vehicles')"

definition filter_vehicles ::
  "remote \<Rightarrow> (string \<times> py_value) list \<Rightarrow> world \<Rightarrow> (error + Vehicle list) \<times> world" where
  "filter_vehicles api params w =
     (let w1 = send GET_vehicles w
      in case on_GET_vehicles api of
           Inl e \<Rightarrow> (Inl e, w1)
         | Inr response \<Rightarrow>
             (case json response of
                Inl e \<Rightarrow> (Inl e, w1)
              | Inr vehicles_data \<Rightarrow> (filter_loop vehicles_data params [], w1)))"

definition get_vehicle :: "remote \<Rightarrow> int \<Rightarrow> world \<Rightarrow> (error + Vehicle) \<times> world" where
  "get_vehicle api i w =
     (let w1 = send (GET_vehicle i) w
      in case on_GET_vehicle api i of
           Inl e \<Rightarrow> (Inl e, w1)
         | Inr response \<Rightarrow>
             (case json response of
                Inl e \<Rightarrow> (Inl e, w1)
              | Inr vehicle_data \<Rightarrow> (Vehicle_init vehicle_data, w1)))"

text \<open>
  \<^verbatim>\<open>add_vehicle\<close>. The generator keeps the ids that are truthy: neither \<^verbatim>\<open>None\<close>
  nor \<^verbatim>\<open>0\<close>. \<^verbatim>\<open>max\<close> of an empty sequence raises ValueError. The right-hand side
  of the assignment is evaluated before \<^verbatim>\<open>data['id']\<close> is written.
\<close>

definition truthy :: "int option \<Rightarrow> bool" where
  "truthy i = (case i of None \<Rightarrow> False | Some n \<Rightarrow> n \<noteq> 0)"

definition truthy_ids :: "Vehicle list \<Rightarrow> int list" where
  "truthy_ids vehicles =
     concat (map (\<lambda>v. case id' v of None \<Rightarrow> [] | Some n \<Rightarrow> if truthy (Some n) then [n] else [])
       vehicles)"

definition py_max :: "int list \<Rightarrow> error + int" where
  "py_max xs = (case xs of [] \<Rightarrow> Inl ValueError | x # ys \<Rightarrow> Inr (fold max ys x))"

definition add_vehicle :: "remote \<Rightarrow> addr \<Rightarrow> world \<Rightarrow> (error + Vehicle) \<times> world" where
  "add_vehicle api vehicle w =
     (let data = vars vehicle
      in case get_vehicles api w of
           (Inl e, w1) \<Rightarrow> (Inl e, w1)
         | (Inr vehicles, w1) \<Rightarrow>
             (case py_max (truthy_ids vehicles) of
                Inl e \<Rightarrow> (Inl e, w1)
              | Inr m \<Rightarrow>
                  (let w2 = setitem_id data (Some (m + 1)) w1;
                       payload = objs w2 data;
                       w3 = send (POST_vehicles payload) w2
                   in case on_POST_vehicles api payload of
                        Inl e \<Rightarrow> (Inl e, w3)
                      | Inr response \<Rightarrow>
                          (let w4 = py_print (text' response) w3
                           in case json response of
                                Inl e \<Rightarrow> (Inl e, w4)
                              | Inr d \<Rightarrow> (Vehicle_init d, w4)))))"

definition update_vehicle :: "remote \<Rightarrow> addr \<Rightarrow> world \<Rightarrow> (error + Vehicle) \<times> world" where
  "update_vehicle api vehicle w =
     (let data = vars vehicle;
          payload = objs w data;
          w1 = send (PUT_vehicle (id' (objs w vehicle)) payload) w
      in case on_PUT_vehicle api (id' (objs w vehicle)) payload of
           Inl e \<Rightarrow> (Inl e, w1)
         | Inr response \<Rightarrow>
             (case json response of
                Inl e \<Rightarrow> (Inl e, w1)
              | Inr d \<Rightarrow> (Vehicle_init d, w1)))"

definition delete_vehicle :: "remote \<Rightarrow> int \<Rightarrow> world \<Rightarrow> (error + unit) \<times> world" where
  "delete_vehicle api i w =
     (let w1 = send (DELETE_vehicle i) w
      in (on_DELETE_vehicle api i, w1))"

definition coordinates_of :: "Vehicle \<Rightarrow> Coordinates" where
  "coordinates_of v =
     \<lparr>latitude = Vehicle.latitude v, longitude = Vehicle.longitude v\<rparr>"

definition get_distance :: "remote \<Rightarrow> int \<Rightarrow> int \<Rightarrow> world \<Rightarrow> (error + real) \<times> world" where
  "get_distance api id1 id2 w =
     (case get_vehicle api id1 w of
        (Inl e, w1) \<Rightarrow> (Inl e, w1)
      | (Inr vehicle1, w1) \<Rightarrow>
          (case get_vehicle api id2 w1 of
             (Inl e, w2) \<Rightarrow> (Inl e, w2)
           | (Inr vehicle2, w2) \<Rightarrow>
               (let coord1 = coordinates_of vehicle1;
                    coord2 = coordinates_of vehicle2
                in (get_distance' coord1 coord2, w2))))"

text \<open>
  \<^verbatim>\<open>get_nearest_vehicle\<close>. \<^verbatim>\<open>min_distance\<close> starts at \<^verbatim>\<open>float('inf')\<close>, above every
  distance; \<^verbatim>\<open>nearest_vehicle\<close> starts at \<^verbatim>\<open>None\<close>.
\<close>

datatype bound = Infinity | Finite real

fun less_bound :: "real \<Rightarrow> bound \<Rightarrow> bool" where
  "less_bound distance Infinity = True"
| "less_bound distance (Finite min_distance) = (distance < min_distance)"

fun nearest_loop ::
  "Coordinates \<Rightarrow> int \<Rightarrow> Vehicle list \<Rightarrow> bound \<times> Vehicle option
     \<Rightarrow> error + bound \<times> Vehicle option" where
  "nearest_loop coord1 i [] (min_distance, nearest_vehicle) =
     Inr (min_distance, nearest_vehicle)"
| "nearest_loop coord1 i (v # rest) (min_distance, nearest_vehicle) =
     (if id' v \<noteq> Some i
      then (let coord2 = coordinates_of v
            in case get_distance' coord1 coord2 of
                 Inl e \<Rightarrow> Inl e
               | Inr distance \<Rightarrow>
                   (if less_bound distance min_distance
                    then nearest_loop coord1 i rest (Finite distance, Some v)
                    else nearest_loop coord1 i rest (min_distance, nearest_vehicle)))
      else nearest_loop coord1 i rest (min_distance, nearest_vehicle))"

definition get_nearest_vehicle ::
  "remote \<Rightarrow> int \<Rightarrow> world \<Rightarrow> (error + Vehicle option) \<times> world" where
  "get_nearest_vehicle api i w =
     (case get_vehicles api w of
        (Inl e, w1) \<Rightarrow> (Inl e, w1)
      | (Inr vehicles, w1) \<Rightarrow>
          (case get_vehicle api i w1 of
             (Inl e, w2) \<Rightarrow> (Inl e, w2)
           | (Inr vehicle, w2) \<Rightarrow>
               (let coord1 = coordinates_of vehicle
                in case nearest_loop coord1 i vehicles (Infinity, None) of
                     Inl e \<Rightarrow> (Inl e, w2)
                   | Inr (min_distance, nearest_vehicle) \<Rightarrow> (Inr nearest_vehicle, w2))))"

section \<open>The specification's distance\<close>

text \<open>
  The great-circle distance as the specification words it (section 4.1): convert the
  four degree values to radians, take the differences, \<open>a\<close> is the haversine term,
  \<open>c = 2 asin (sqrt a)\<close>, and the distance is \<open>c\<close> times the radius 6,371,000. It is
  compared with \<open>get_distance'\<close> below.
\<close>

definition spec_distance :: "Coordinates \<Rightarrow> Coordinates \<Rightarrow> real" where
  "spec_distance p q =
     (let lat1 = latitude p * pi / 180;
          lon1 = longitude p * pi / 180;
          lat2 = latitude q * pi / 180;
          lon2 = longitude q * pi / 180;
          dlat = lat2 - lat1;
          dlon = lon2 - lon1;
          a = (sin (dlat / 2))\<^sup>2 + cos lat1 * cos lat2 * (sin (dlon / 2))\<^sup>2;
          c = 2 * arcsin (sqrt a)
      in c * 6371000)"

section \<open>A reference inventory\<close>

text \<open>
  A remote that serves a fixed list of vehicles, used to instantiate the theorems below:
  the collection is the list of their JSON objects, a single resource is the first
  vehicle with the requested id (an empty object when there is none), and a created or
  updated record is echoed back.
\<close>

definition asdict :: "Vehicle \<Rightarrow> json_object" where
  "asdict v =
     [(''name'', PStr (name v)), (''model'', PStr (model v)), (''year'', PInt (year v)),
      (''color'', PStr (color v)), (''price'', PFloat (price v)),
      (''latitude'', PFloat (Vehicle.latitude v)),
      (''longitude'', PFloat (Vehicle.longitude v)),
      (''id'', case id' v of None \<Rightarrow> PNone | Some n \<Rightarrow> PInt n)]"

definition inventory :: "Vehicle list \<Rightarrow> remote" where
  "inventory vs =
     \<lparr>on_GET_vehicles = Inr \<lparr>text' = ''[...]'', json = Inr (map asdict vs)\<rparr>,
      on_GET_vehicle = (\<lambda>i.
        case find (\<lambda>v. id' v = Some i) vs of
          None \<Rightarrow> Inr \<lparr>text' = ''{}'', json = Inr []\<rparr>
        | Some v \<Rightarrow> Inr \<lparr>text' = ''{...}'', json = Inr (asdict v)\<rparr>),
      on_POST_vehicles = (\<lambda>p. Inr \<lparr>text' = ''{...}'', json = Inr (asdict p)\<rparr>),
      on_PUT_vehicle = (\<lambda>i p. Inr \<lparr>text' = ''{...}'', json = Inr (asdict p)\<rparr>),
      on_DELETE_vehicle = (\<lambda>i. Inr ())\<rparr>"

text \<open>The record of the repository's tests, at a given position and with a given id.\<close>

definition camry :: "int option \<Rightarrow> real \<Rightarrow> real \<Rightarrow> Vehicle" where
  "camry i la lo =
     \<lparr>name = ''Toyota'', model = ''Camry'', year = 2021, color = ''red'', price = 21000,
      Vehicle.latitude = la, Vehicle.longitude = lo, id' = i\<rparr>"

text \<open>
  A caller that has sent nothing yet and holds, at every address, the record of
  \<^verbatim>\<open>test_add_vehicle\<close>, constructed without an id.
\<close>

definition fresh_world :: world where
  "fresh_world =
     \<lparr>sent = [], stdout = [], objs = (\<lambda>a. camry None (55753215 / 1000000) (37620393 / 1000000))\<rparr>"

section \<open>Properties of the distance computation\<close>

text \<open>
  The haversine term is \<open>(1 - cos \<theta>) / 2\<close> for the central angle \<open>\<theta>\<close>, whose cosine is
  \<open>sin la1 sin la2 + cos la1 cos la2 cos d_lo\<close>; this holds for all real arguments, and
  bounds the term by 0 and 1.
\<close>

lemma sin_half_sq: "(sin (x / 2))\<^sup>2 = (1 - cos x) / 2" for x :: real
  using cos_double_sin [of "x / 2"] by simp

lemma prod_sum_bound:
  fixes s1 s2 c1 c2 k :: real
  assumes "s1\<^sup>2 + c1\<^sup>2 = 1" "s2\<^sup>2 + c2\<^sup>2 = 1" "\<bar>k\<bar> \<le> 1"
  shows "\<bar>s1 * s2 + c1 * c2 * k\<bar> \<le> 1"
proof -
  have a: "2 * \<bar>s1 * s2\<bar> \<le> s1\<^sup>2 + s2\<^sup>2"
    using sum_squares_bound [of s1 s2] sum_squares_bound [of "- s1" s2]
    by (simp add: abs_le_iff)
  have b0: "2 * \<bar>c1 * c2\<bar> \<le> c1\<^sup>2 + c2\<^sup>2"
    using sum_squares_bound [of c1 c2] sum_squares_bound [of "- c1" c2]
    by (simp add: abs_le_iff)
  have "\<bar>c1 * c2 * k\<bar> = \<bar>c1 * c2\<bar> * \<bar>k\<bar>" by (simp add: abs_mult)
  also have "\<dots> \<le> \<bar>c1 * c2\<bar> * 1"
    by (rule mult_left_mono) (use assms in auto)
  finally have b: "\<bar>c1 * c2 * k\<bar> \<le> \<bar>c1 * c2\<bar>" by simp
  have "\<bar>s1 * s2 + c1 * c2 * k\<bar> \<le> \<bar>s1 * s2\<bar> + \<bar>c1 * c2 * k\<bar>" by (rule abs_triangle_ineq)
  with a b0 b assms show ?thesis by linarith
qed

lemma haversine_P_alt:
  "haversine_P c1 c2 =
     (1 - (sin (radians (latitude c1)) * sin (radians (latitude c2))
         + cos (radians (latitude c1)) * cos (radians (latitude c2))
           * cos (radians (longitude c2) - radians (longitude c1)))) / 2"
proof -
  define la1 la2 d where "la1 = radians (latitude c1)" and "la2 = radians (latitude c2)"
    and "d = radians (longitude c2) - radians (longitude c1)"
  have "haversine_P c1 c2 = (sin ((la2 - la1) / 2))\<^sup>2 + cos la1 * cos la2 * (sin (d / 2))\<^sup>2"
    by (simp add: haversine_P_def Let_def la1_def la2_def d_def)
  also have "\<dots> = (1 - cos (la2 - la1)) / 2 + cos la1 * cos la2 * ((1 - cos d) / 2)"
    by (simp only: sin_half_sq)
  also have "\<dots> = (1 - (sin la1 * sin la2 + cos la1 * cos la2 * cos d)) / 2"
    by (simp add: cos_diff field_simps)
  finally show ?thesis by (simp add: la1_def la2_def d_def)
qed

lemma haversine_P_bounds: "0 \<le> haversine_P c1 c2 \<and> haversine_P c1 c2 \<le> 1"
proof -
  let ?x = "sin (radians (latitude c1)) * sin (radians (latitude c2))
         + cos (radians (latitude c1)) * cos (radians (latitude c2))
           * cos (radians (longitude c2) - radians (longitude c1))"
  have "\<bar>?x\<bar> \<le> 1"
    by (rule prod_sum_bound) simp_all
  then have "0 \<le> (1 - ?x) / 2 \<and> (1 - ?x) / 2 \<le> 1"
    by (simp add: abs_le_iff)
  then show ?thesis by (simp only: haversine_P_alt)
qed

lemma get_distance'_eq:
  "get_distance' c1 c2 = Inr (2 * arcsin (sqrt (haversine_P c1 c2)) * R_M)"
proof -
  have p: "0 \<le> haversine_P c1 c2" "haversine_P c1 c2 \<le> 1"
    using haversine_P_bounds by auto
  then have "sqrt (haversine_P c1 c2) \<le> 1" "0 \<le> sqrt (haversine_P c1 c2)"
    by simp_all
  then have "\<not> (sqrt (haversine_P c1 c2) < - 1 \<or> 1 < sqrt (haversine_P c1 c2))"
    by linarith
  with p show ?thesis
    by (simp add: get_distance'_def py_sqrt_def py_asin_def Let_def)
qed

lemma haversine_P_sym: "haversine_P c1 c2 = haversine_P c2 c1"
  unfolding haversine_P_alt by (simp add: mult.commute cos_diff)

lemma haversine_P_refl: "haversine_P c c = 0"
  by (simp add: haversine_P_def)


lemma spec_distance_eq:
  "spec_distance c1 c2 = 2 * arcsin (sqrt (haversine_P c1 c2)) * R_M"
  by (simp add: spec_distance_def haversine_P_def radians_def R_M_def Let_def)

lemma get_distance'_spec: "get_distance' c1 c2 = Inr (spec_distance c1 c2)"
  by (simp only: get_distance'_eq spec_distance_eq)

text \<open>
  Claim C3. The distance of a coordinate pair to itself is exactly 0, and the call
  returns (no domain error), for every coordinate pair.
\<close>

theorem distance_self_zero: "get_distance' P P = Inr 0"
  by (simp add: get_distance'_eq haversine_P_refl)

text \<open>
  Claim C4. The distance is symmetric: exchanging the two coordinate pairs gives the
  same result.
\<close>

theorem distance_symmetric: "get_distance' P Q = get_distance' Q P"
  by (simp add: get_distance'_eq haversine_P_sym [of P Q])


section \<open>The reference inventory answers with its vehicles\<close>

lemma Vehicle_init_asdict: "Vehicle_init (asdict v) = Inr v"
  by (cases "id' v")
     (simp_all add: Vehicle_init_def asdict_def field_names_def required_def bind_e_def)

lemma get_vehicles_loop_asdict:
  "get_vehicles_loop (map asdict vs) acc = Inr (acc @ vs)"
  by (induction vs arbitrary: acc) (simp_all add: Vehicle_init_asdict)

lemma get_vehicles_inventory:
  "get_vehicles (inventory vs) w = (Inr vs, send GET_vehicles w)"
  by (simp add: get_vehicles_def inventory_def Let_def get_vehicles_loop_asdict)

lemma get_vehicle_inventory:
  "find (\<lambda>v. id' v = Some i) vs = Some v \<Longrightarrow>
   get_vehicle (inventory vs) i w = (Inr v, send (GET_vehicle i) w)"
  by (simp add: get_vehicle_def inventory_def Let_def Vehicle_init_asdict)

text \<open>
  A reference id that the inventory does not hold makes the fetch of the single vehicle
  fail in the constructor. Failures of the collaborator propagate to the caller; the
  theorems about \<open>get_nearest_vehicle\<close> and \<open>add_vehicle\<close> below are stated for fetches
  that succeed.
\<close>

lemma get_vehicle_inventory_missing:
  "find (\<lambda>v. id' v = Some i) vs = None \<Longrightarrow>
   get_vehicle (inventory vs) i w = (Inl TypeError, send (GET_vehicle i) w)"
  by (simp add: get_vehicle_def inventory_def Let_def Vehicle_init_def required_def bind_e_def)

lemma get_vehicles_sent:
  "get_vehicles api w = (r, w1) \<Longrightarrow> w1 = send GET_vehicles w"
  by (auto simp: get_vehicles_def Let_def split: sum.splits)

lemma nearest_loop_none:
  "\<forall>v \<in> set vs. id' v = Some i \<Longrightarrow> nearest_loop c i vs (m, n) = Inr (m, n)"
  by (induction vs) simp_all

section \<open>The nearest-vehicle search\<close>







lemma spec_distance_same: "spec_distance c c = 0"
  by (simp add: spec_distance_eq haversine_P_refl)

lemma spec_distance_antipodal:
  "spec_distance \<lparr>latitude = 0, longitude = 0\<rparr> \<lparr>latitude = 0, longitude = 180\<rparr> = pi * 6371000"
  by (simp add: spec_distance_def)

lemma nearest_example:
  "get_nearest_vehicle
     (inventory [camry (Some 1) 0 0, camry (Some 2) 0 180, camry (Some 3) 0 0, camry (Some 4) 0 0])
     1 fresh_world
   = (Inr (Some (camry (Some 3) 0 0)),
      send (GET_vehicle 1) (send GET_vehicles fresh_world))"
  by (simp add: get_nearest_vehicle_def get_vehicles_inventory get_vehicle_inventory
      camry_def coordinates_of_def get_distance'_spec spec_distance_same spec_distance_antipodal)



text \<open>
  Claim C5. When both fetches succeed and every fetched vehicle has the reference id,
  \<open>get_nearest_vehicle\<close> returns \<^verbatim>\<open>None\<close>: a result, not an exception, and not the
  reference vehicle.
\<close>

theorem nearest_vehicle_none:
  assumes "get_vehicles api w = (Inr vehicles, w1)"
    and "get_vehicle api i w1 = (Inr vehicle, w2)"
    and "\<forall>v \<in> set vehicles. id' v = Some i"
  shows "get_nearest_vehicle api i w = (Inr None, w2)"
  using assms
  by (simp add: get_nearest_vehicle_def Let_def nearest_loop_none)

theorem nearest_vehicle_none_witness:
  "get_vehicles (inventory [camry (Some 1) 0 0]) fresh_world
     = (Inr [camry (Some 1) 0 0], send GET_vehicles fresh_world) \<and>
   get_vehicle (inventory [camry (Some 1) 0 0]) 1 (send GET_vehicles fresh_world)
     = (Inr (camry (Some 1) 0 0), send (GET_vehicle 1) (send GET_vehicles fresh_world)) \<and>
   list_all (\<lambda>v. id' v = Some 1) [camry (Some 1) 0 0] \<and>
   get_nearest_vehicle (inventory [camry (Some 1) 0 0]) 1 fresh_world
     = (Inr None, send (GET_vehicle 1) (send GET_vehicles fresh_world))"
proof -
  let ?vs = "[camry (Some 1) 0 0]"
  have h1: "get_vehicles (inventory ?vs) fresh_world = (Inr ?vs, send GET_vehicles fresh_world)"
    by (rule get_vehicles_inventory)
  have h2: "get_vehicle (inventory ?vs) 1 (send GET_vehicles fresh_world)
      = (Inr (camry (Some 1) 0 0), send (GET_vehicle 1) (send GET_vehicles fresh_world))"
    by (rule get_vehicle_inventory) (simp add: camry_def)
  have h3: "\<forall>v \<in> set ?vs. id' v = Some 1"
    by (simp add: camry_def)
  from h1 h2 h3 nearest_vehicle_none [OF h1 h2 h3] show ?thesis
    by (simp add: camry_def)
qed

section \<open>Filtering\<close>

lemma filter_items_result:
  assumes "(\<exists>p \<in> set params. matches d p) \<longrightarrow> Vehicle_init d = Inr v"
  shows "filter_items d params acc =
     Inr (acc @ replicate (length (filter (matches d) params)) v)"
  using assms
proof (induction params arbitrary: acc)
  case Nil
  then show ?case by simp
next
  case (Cons p ps)
  show ?case
  proof (cases "matches d p")
    case True
    then have v: "Vehicle_init d = Inr v" using Cons.prems by simp
    then have "filter_items d ps (acc @ [v]) =
        Inr ((acc @ [v]) @ replicate (length (filter (matches d) ps)) v)"
      by (intro Cons.IH) simp
    with True v show ?thesis by (simp add: replicate_app_Cons_same)
  next
    case False
    then have "(\<exists>p \<in> set ps. matches d p) \<longrightarrow> Vehicle_init d = Inr v"
      using Cons.prems by simp
    then have "filter_items d ps acc = Inr (acc @ replicate (length (filter (matches d) ps)) v)"
      by (rule Cons.IH)
    with False show ?thesis by simp
  qed
qed

lemma filter_loop_result:
  assumes "\<forall>d \<in> set ds. (\<exists>p \<in> set params. matches d p) \<longrightarrow> (\<exists>v. Vehicle_init d = Inr v)"
  shows "filter_loop ds params acc =
     Inr (acc @ concat (map (\<lambda>d. replicate (length (filter (matches d) params))
                                   (projr (Vehicle_init d))) ds))"
  using assms
proof (induction ds arbitrary: acc)
  case Nil
  then show ?case by simp
next
  case (Cons d ds)
  have "(\<exists>p \<in> set params. matches d p) \<longrightarrow> Vehicle_init d = Inr (projr (Vehicle_init d))"
    using Cons.prems by auto
  then have one: "filter_items d params acc =
      Inr (acc @ replicate (length (filter (matches d) params)) (projr (Vehicle_init d)))"
    by (rule filter_items_result)
  have rest: "\<forall>d \<in> set ds. (\<exists>p \<in> set params. matches d p) \<longrightarrow> (\<exists>v. Vehicle_init d = Inr v)"
    using Cons.prems by simp
  show ?case
    by (simp add: one Cons.IH [OF rest])
qed

lemma matches_asdict_name:
  "matches (asdict v) (''name'', PStr s) = (name v = s)"
  by (simp add: matches_def asdict_def contains_def getitem_def)

lemma matches_asdict_color:
  "matches (asdict v) (''color'', PStr s) = (color v = s)"
  by (simp add: matches_def asdict_def contains_def getitem_def)

text \<open>
  Claim C8. \<open>filter_vehicles\<close> returns, for each fetched object in turn, one copy of its
  record for every item of \<^verbatim>\<open>params\<close> that the object matches: an object matching
  any one item is included, and an object matching \<open>k\<close> items contributes \<open>k\<close> copies.
  The fetch is assumed to succeed, and every object that matches an item to be a
  well-formed vehicle. The instance below filters by name and colour: the first vehicle
  matches both items and is returned twice, the second matches one and is returned once,
  the third matches none.
\<close>

theorem filter_vehicles_one_per_match:
  assumes "on_GET_vehicles api = Inr response"
    and "json response = Inr vehicles_data"
    and "\<forall>d \<in> set vehicles_data.
           (\<exists>p \<in> set params. matches d p) \<longrightarrow> (\<exists>v. Vehicle_init d = Inr v)"
  shows "fst (filter_vehicles api params w) =
     Inr (concat (map (\<lambda>d. replicate (length (filter (matches d) params))
                              (projr (Vehicle_init d))) vehicles_data))"
  using assms(1,2) filter_loop_result [OF assms(3), of "[]"]
  by (simp add: filter_vehicles_def Let_def)

theorem filter_vehicles_one_per_match_witness:
  "on_GET_vehicles (inventory [camry (Some 1) 0 0, (camry (Some 2) 0 0)\<lparr>color := ''blue''\<rparr>,
      (camry (Some 3) 0 0)\<lparr>name := ''Honda'', color := ''blue''\<rparr>])
     = Inr \<lparr>text' = ''[...]'',
            json = Inr (map asdict [camry (Some 1) 0 0, (camry (Some 2) 0 0)\<lparr>color := ''blue''\<rparr>,
                     (camry (Some 3) 0 0)\<lparr>name := ''Honda'', color := ''blue''\<rparr>])\<rparr> \<and>
   fst (filter_vehicles
         (inventory [camry (Some 1) 0 0, (camry (Some 2) 0 0)\<lparr>color := ''blue''\<rparr>,
            (camry (Some 3) 0 0)\<lparr>name := ''Honda'', color := ''blue''\<rparr>])
         [(''name'', PStr ''Toyota''), (''color'', PStr ''red'')] fresh_world)
     = Inr [camry (Some 1) 0 0, camry (Some 1) 0 0, (camry (Some 2) 0 0)\<lparr>color := ''blue''\<rparr>]"
proof -
  let ?vs = "[camry (Some 1) 0 0, (camry (Some 2) 0 0)\<lparr>color := ''blue''\<rparr>,
      (camry (Some 3) 0 0)\<lparr>name := ''Honda'', color := ''blue''\<rparr>]"
  let ?r = "\<lparr>text' = ''[...]'', json = Inr (map asdict ?vs)\<rparr>"
  let ?params = "[(''name'', PStr ''Toyota''), (''color'', PStr ''red'')]"
  have h1: "on_GET_vehicles (inventory ?vs) = Inr ?r"
    by (simp add: inventory_def)
  have h2: "json ?r = Inr (map asdict ?vs)"
    by simp
  have h3: "\<forall>d \<in> set (map asdict ?vs).
      (\<exists>p \<in> set ?params. matches d p) \<longrightarrow> (\<exists>v. Vehicle_init d = Inr v)"
    by (simp add: Vehicle_init_asdict)
  from filter_vehicles_one_per_match [OF h1 h2 h3, of fresh_world] h1
  show ?thesis
    by (simp add: Vehicle_init_asdict matches_asdict_name matches_asdict_color camry_def)
qed

section \<open>Creating a record\<close>

lemma py_max_nonempty:
  assumes "xs \<noteq> []"
  shows "py_max xs = Inr (Max (set xs))"
proof (cases xs)
  case Nil
  with assms show ?thesis by simp
next
  case (Cons x ys)
  have "fold max ys x = Max (set (x # ys))"
    by (rule Max.set_eq_fold [symmetric])
  with Cons show ?thesis by (simp add: py_max_def)
qed

lemma truthy_ids_all_None:
  "\<forall>v \<in> set vehicles. id' v = None \<Longrightarrow> truthy_ids vehicles = []"
  by (induction vehicles) (simp_all add: truthy_ids_def)

lemma add_vehicle_computed:
  assumes "get_vehicles api w = (Inr vehicles, w1)"
    and "truthy_ids vehicles \<noteq> []"
  shows "sent (snd (add_vehicle api vehicle w)) =
      sent w @ [GET_vehicles,
        POST_vehicles ((objs w vehicle)\<lparr>id' := Some (Max (set (truthy_ids vehicles)) + 1)\<rparr>)]"
    and "objs (snd (add_vehicle api vehicle w)) =
      (objs w)(vehicle := (objs w vehicle)\<lparr>id' := Some (Max (set (truthy_ids vehicles)) + 1)\<rparr>)"
proof -
  have w1: "w1 = send GET_vehicles w"
    using assms(1) by (rule get_vehicles_sent)
  have m: "py_max (truthy_ids vehicles) = Inr (Max (set (truthy_ids vehicles)))"
    using assms(2) by (rule py_max_nonempty)
  show "sent (snd (add_vehicle api vehicle w)) =
      sent w @ [GET_vehicles,
        POST_vehicles ((objs w vehicle)\<lparr>id' := Some (Max (set (truthy_ids vehicles)) + 1)\<rparr>)]"
    using assms(1)
    by (simp add: add_vehicle_def Let_def m w1 vars_def setitem_id_def send_def py_print_def
        split: sum.splits)
  show "objs (snd (add_vehicle api vehicle w)) =
      (objs w)(vehicle := (objs w vehicle)\<lparr>id' := Some (Max (set (truthy_ids vehicles)) + 1)\<rparr>)"
    using assms(1)
    by (simp add: add_vehicle_def Let_def m w1 vars_def setitem_id_def send_def py_print_def
        split: sum.splits)
qed

lemma truthy_ids_example:
  "truthy_ids [camry (Some 1) 0 0, camry (Some 2) 0 0] = [1, 2]"
  by (simp add: truthy_ids_def camry_def truthy_def)

text \<open>
  Claim C6 says that the client does not choose the id of a new record. It does: with
  vehicles 1 and 2 in the inventory, the record constructed without an id is posted
  with the id 3, before the remote has answered anything about it.
\<close>

theorem add_vehicle_client_chooses_id:
  "id' (objs fresh_world 0) = None \<and>
   sent (snd (add_vehicle (inventory [camry (Some 1) 0 0, camry (Some 2) 0 0]) 0 fresh_world))
     = [GET_vehicles, POST_vehicles (camry (Some 3) (55753215 / 1000000) (37620393 / 1000000))]"
proof -
  let ?vs = "[camry (Some 1) 0 0, camry (Some 2) 0 0]"
  have h1: "get_vehicles (inventory ?vs) fresh_world = (Inr ?vs, send GET_vehicles fresh_world)"
    by (rule get_vehicles_inventory)
  have h2: "truthy_ids ?vs \<noteq> []"
    by (simp add: truthy_ids_example)
  have "sent (snd (add_vehicle (inventory ?vs) 0 fresh_world)) =
      sent fresh_world @ [GET_vehicles,
        POST_vehicles ((objs fresh_world 0)\<lparr>id' := Some (Max (set (truthy_ids ?vs)) + 1)\<rparr>)]"
    using h1 h2 by (rule add_vehicle_computed(1))
  then have "sent (snd (add_vehicle (inventory ?vs) 0 fresh_world)) =
      sent fresh_world @ [GET_vehicles,
        POST_vehicles ((objs fresh_world 0)\<lparr>id' := Some (Max (set [1, 2]) + 1)\<rparr>)]"
    by (simp only: truthy_ids_example)
  then show ?thesis
    by (simp add: fresh_world_def camry_def)
qed

text \<open>
  Claim C6, amended. When the fetch of the inventory succeeds and some fetched vehicle
  has an id other than \<^verbatim>\<open>None\<close> and \<^verbatim>\<open>0\<close>, \<open>add_vehicle\<close> sends two requests: the
  fetch, and the creation of the caller's record with the id set by the client to one
  more than the largest such id.
\<close>

theorem add_vehicle_sends_computed_id:
  assumes "get_vehicles api w = (Inr vehicles, w1)"
    and "truthy_ids vehicles \<noteq> []"
  shows "sent (snd (add_vehicle api vehicle w)) =
     sent w @ [GET_vehicles,
       POST_vehicles ((objs w vehicle)\<lparr>id' := Some (Max (set (truthy_ids vehicles)) + 1)\<rparr>)]"
  using assms by (rule add_vehicle_computed(1))

theorem add_vehicle_sends_computed_id_witness:
  "get_vehicles (inventory [camry (Some 1) 0 0, camry (Some 2) 0 0]) fresh_world
     = (Inr [camry (Some 1) 0 0, camry (Some 2) 0 0], send GET_vehicles fresh_world) \<and>
   truthy_ids [camry (Some 1) 0 0, camry (Some 2) 0 0] \<noteq> [] \<and>
   sent (snd (add_vehicle (inventory [camry (Some 1) 0 0, camry (Some 2) 0 0]) 7 fresh_world))
     = [GET_vehicles, POST_vehicles (camry (Some 3) (55753215 / 1000000) (37620393 / 1000000))]"
proof -
  let ?vs = "[camry (Some 1) 0 0, camry (Some 2) 0 0]"
  have h1: "get_vehicles (inventory ?vs) fresh_world = (Inr ?vs, send GET_vehicles fresh_world)"
    by (rule get_vehicles_inventory)
  have h2: "truthy_ids ?vs \<noteq> []"
    by (simp add: truthy_ids_example)
  have "sent (snd (add_vehicle (inventory ?vs) 7 fresh_world)) =
      sent fresh_world @ [GET_vehicles,
        POST_vehicles ((objs fresh_world 7)\<lparr>id' := Some (Max (set (truthy_ids ?vs)) + 1)\<rparr>)]"
    using h1 h2 by (rule add_vehicle_sends_computed_id)
  then have "sent (snd (add_vehicle (inventory ?vs) 7 fresh_world)) =
      sent fresh_world @ [GET_vehicles,
        POST_vehicles ((objs fresh_world 7)\<lparr>id' := Some (Max (set [1, 2]) + 1)\<rparr>)]"
    by (simp only: truthy_ids_example)
  then have "sent (snd (add_vehicle (inventory ?vs) 7 fresh_world))
     = [GET_vehicles, POST_vehicles (camry (Some 3) (55753215 / 1000000) (37620393 / 1000000))]"
    by (simp add: fresh_world_def camry_def)
  with h1 h2 show ?thesis by (intro conjI)
qed

text \<open>
  Claim C9. \<open>add_vehicle\<close> mutates its argument: when the id is computed (the fetch
  succeeds and some fetched vehicle has a truthy id), the object passed in has that id
  after the call, whatever the remote answers to the creation; no other object and no
  other field changes.
\<close>

theorem add_vehicle_mutates_argument:
  assumes "get_vehicles api w = (Inr vehicles, w1)"
    and "truthy_ids vehicles \<noteq> []"
  shows "objs (snd (add_vehicle api vehicle w)) =
     (objs w)(vehicle := (objs w vehicle)\<lparr>id' := Some (Max (set (truthy_ids vehicles)) + 1)\<rparr>)"
  using assms by (rule add_vehicle_computed(2))

theorem add_vehicle_mutates_argument_witness:
  "get_vehicles (inventory [camry (Some 1) 0 0, camry (Some 2) 0 0]) fresh_world
     = (Inr [camry (Some 1) 0 0, camry (Some 2) 0 0], send GET_vehicles fresh_world) \<and>
   truthy_ids [camry (Some 1) 0 0, camry (Some 2) 0 0] \<noteq> [] \<and>
   id' (objs fresh_world 0) = None \<and>
   id' (objs (snd (add_vehicle (inventory [camry (Some 1) 0 0, camry (Some 2) 0 0]) 0 fresh_world)) 0)
     = Some 3"
proof -
  let ?vs = "[camry (Some 1) 0 0, camry (Some 2) 0 0]"
  have h1: "get_vehicles (inventory ?vs) fresh_world = (Inr ?vs, send GET_vehicles fresh_world)"
    by (rule get_vehicles_inventory)
  have h2: "truthy_ids ?vs \<noteq> []"
    by (simp add: truthy_ids_example)
  have "objs (snd (add_vehicle (inventory ?vs) 0 fresh_world)) =
      (objs fresh_world)(0 := (objs fresh_world 0)\<lparr>id' := Some (Max (set (truthy_ids ?vs)) + 1)\<rparr>)"
    using h1 h2 by (rule add_vehicle_mutates_argument)
  then have "objs (snd (add_vehicle (inventory ?vs) 0 fresh_world)) =
      (objs fresh_world)(0 := (objs fresh_world 0)\<lparr>id' := Some (Max (set [1, 2]) + 1)\<rparr>)"
    by (simp only: truthy_ids_example)
  then have a: "id' (objs (snd (add_vehicle (inventory ?vs) 0 fresh_world)) 0) = Some 3"
    by simp
  have b: "id' (objs fresh_world 0) = None"
    by (simp add: fresh_world_def camry_def)
  from h1 h2 b a show ?thesis by (intro conjI)
qed

text \<open>
  Claim C10. When the fetch succeeds and no fetched vehicle has an id, in particular
  when the inventory is empty, \<open>add_vehicle\<close> raises ValueError; the only request sent
  is the fetch, so no creation request is sent, and the caller's object is unchanged.
\<close>

theorem add_vehicle_empty_max:
  assumes "get_vehicles api w = (Inr vehicles, w1)"
    and "\<forall>v \<in> set vehicles. id' v = None"
  shows "add_vehicle api vehicle w = (Inl ValueError, send GET_vehicles w)"
proof -
  have w1: "w1 = send GET_vehicles w"
    using assms(1) by (rule get_vehicles_sent)
  have "truthy_ids vehicles = []"
    using assms(2) by (rule truthy_ids_all_None)
  then show ?thesis
    using assms(1) by (simp add: add_vehicle_def Let_def py_max_def w1)
qed

theorem add_vehicle_empty_max_witness:
  "get_vehicles (inventory []) fresh_world = (Inr [], send GET_vehicles fresh_world) \<and>
   list_all (\<lambda>v. id' v = None) [] \<and>
   add_vehicle (inventory []) 0 fresh_world = (Inl ValueError, send GET_vehicles fresh_world) \<and>
   sent (send GET_vehicles fresh_world) = [GET_vehicles]"
proof -
  have h1: "get_vehicles (inventory []) fresh_world = (Inr [], send GET_vehicles fresh_world)"
    by (rule get_vehicles_inventory)
  have h2: "\<forall>v \<in> set ([] :: Vehicle list). id' v = None"
    by simp
  from add_vehicle_empty_max [OF h1 h2, of 0] h1 show ?thesis
    by (simp add: send_def fresh_world_def)
qed

end
